theory Spec2Isabelle
  imports Complex_Main
begin

section \<open>Data model\<close>

text \<open>
  The ledger of the watch marketplace, as the route handlers of \<^verbatim>\<open>app/routers\<close> use it.
  Every ORM class is a record; a table is the list of its rows in insertion order. The
  primary key of an object is \<^verbatim>\<open>None\<close> from its construction until the session flushes
  the INSERT, so every \<^verbatim>\<open>id\<close> field is an \<open>int option\<close>. Python floats (prices, fees) are
  idealised as reals. Only the columns that the handlers read or write are kept.
\<close>

record user =
  u_id :: "int option"
  u_full_name :: string
  u_email :: string
  u_role :: string
  u_stellar_public_key :: "string option"
  u_stellar_secret :: "string option"

record store =
  s_id :: "int option"
  s_user_id :: int
  s_name :: string
  s_commission_rate :: real
  s_credentialed :: bool

record evaluator =
  e_id :: "int option"
  e_user_id :: int
  e_store_id :: "int option"

record watch =
  w_id :: "int option"
  w_serial_number :: string
  w_brand :: string
  w_model :: string
  w_current_value_brl :: "real option"
  w_price_brl :: "real option"
  w_current_owner_user_id :: int
  w_status :: string
  w_store_id :: "int option"
  w_nft_code :: "string option"
  w_nft_issuer :: "string option"
  w_blockchain_address :: "string option"

record ownership_transfer =
  ot_id :: "int option"
  ot_watch_id :: "int option"
  ot_from_user_id :: int
  ot_to_user_id :: int
  ot_stellar_tx_hash :: string
  ot_type :: string
  ot_price_brl :: real
  ot_admin_fee_brl :: real

record commission =
  c_id :: "int option"
  c_transaction_id :: "int option"
  c_transaction_type :: string
  c_recipient_user_id :: int
  c_amount_brl :: real
  c_description :: string

record escrow =
  es_id :: "int option"
  es_offer_id :: "int option"
  es_watch_id :: "int option"
  es_buyer_id :: "int option"
  es_seller_id :: "int option"
  es_amount_brl :: "real option"
  es_status :: string
  es_seller_confirmed :: bool
  es_evaluator_confirmed :: bool

record notification =
  n_id :: "int option"
  n_user_id :: "int option"
  n_title :: string
  n_type :: string

record db =
  users :: "user list"
  stores :: "store list"
  evaluators :: "evaluator list"
  watches :: "watch list"
  ownership_transfers :: "ownership_transfer list"
  commissions :: "commission list"
  escrows :: "escrow list"
  notifications :: "notification list"

definition empty_db :: db where
  "empty_db = \<lparr>users = [], stores = [], evaluators = [], watches = [],
     ownership_transfers = [], commissions = [], escrows = [], notifications = []\<rparr>"

subsection \<open>Exceptions\<close>

text \<open>
  A handler either returns its response or raises. The detail of an \<^verbatim>\<open>HTTPException\<close> is a
  Portuguese sentence in the source; each sentence is one constructor here, named after
  its words. Three details embed the text of a caught exception. An exception that no
  handler catches is answered with status 500.
\<close>

datatype exn =
    HTTPException int detail
  | NameError string
  | AttributeError string
  | TypeError string
  | ValueError string
  | UnboundLocalError string
  | AdapterError string
and detail =
    Permissao_negada
  | Relogio_nao_encontrado
  | Usuario_nao_e_um_avaliador_credenciado
  | Relogio_ja_foi_tokenizado
  | Relogio_deve_estar_avaliado_para_ser_tokenizado
  | Falha_na_tokenizacao_NFT
  | Erro_na_tokenizacao exn
  | Nao_autorizado
  | Numero_de_serie_ja_cadastrado
  | Apenas_lojas_podem_listar_relogios_para_venda_direta
  | Relogio_nao_encontrado_ou_voce_nao_e_o_proprietario
  | Relogio_nao_disponivel_para_venda
  | Usuarios_so_podem_comprar_relogios_de_lojas_credenciadas
  | Voce_nao_pode_comprar_seu_proprio_relogio
  | Dados_do_cartao_incompletos
  | CPF_e_obrigatorio_para_pagamento_com_cartao
  | CPF_e_obrigatorio_para_PIX
  | Erro_na_simulacao_de_pagamento exn
  | Usuario_nao_encontrado
  | Falha_no_pagamento
  | Loja_nao_encontrada
  | Relogio_nao_encontrado_ou_nao_autorizado
  | Relogio_nao_encontrado_ou_nao_disponivel
  | Email_ja_cadastrado
  | Usuario_nao_encontrado_ou_nao_e_uma_loja
  | Usuario_ja_possui_uma_loja_cadastrada
  | Usuario_nao_encontrado_ou_nao_e_um_avaliador
  | Apenas_vendedores_e_avaliadores_podem_confirmar_entrega
  | Erro_na_confirmacao exn
  | Credenciais_invalidas

datatype 'a outcome = Returned 'a | Raised exn

fun http_status :: "exn \<Rightarrow> int" where
  "http_status (HTTPException status_code d) = status_code"
| "http_status e = 500"

subsection \<open>The session: units of work\<close>

text \<open>
  A call of \<^verbatim>\<open>db.commit()\<close> flushes, in one transaction, the objects added to the session
  and the attribute changes of loaded rows made since the last commit. An inserted row
  receives the next value of its table's autoincrement key; a changed row replaces the
  row with its key.
\<close>

primrec max_id :: "int option list \<Rightarrow> int" where
  "max_id [] = 0"
| "max_id (i # ids) = max (case i of None \<Rightarrow> 0 | Some n \<Rightarrow> n) (max_id ids)"

definition next_id :: "int option list \<Rightarrow> int option" where
  "next_id ids = Some (max_id ids + 1)"

datatype db_write =
    Insert_User user
  | Insert_Store store
  | Insert_Evaluator evaluator
  | Insert_Watch watch
  | Update_Watch watch
  | Update_User user
  | Insert_OwnershipTransfer ownership_transfer
  | Insert_Commission commission
  | Insert_Escrow escrow
  | Update_Escrow escrow
  | Update_Store store
  | Insert_Notification notification

fun apply_write :: "db_write \<Rightarrow> db \<Rightarrow> db" where
  "apply_write (Insert_User u) d =
     d\<lparr>users := users d @ [u\<lparr>u_id := next_id (map u_id (users d))\<rparr>]\<rparr>"
| "apply_write (Insert_Store s) d =
     d\<lparr>stores := stores d @ [s\<lparr>s_id := next_id (map s_id (stores d))\<rparr>]\<rparr>"
| "apply_write (Insert_Evaluator e) d =
     d\<lparr>evaluators := evaluators d @ [e\<lparr>e_id := next_id (map e_id (evaluators d))\<rparr>]\<rparr>"
| "apply_write (Insert_Watch w) d =
     d\<lparr>watches := watches d @ [w\<lparr>w_id := next_id (map w_id (watches d))\<rparr>]\<rparr>"
| "apply_write (Update_Watch w) d =
     d\<lparr>watches := map (\<lambda>r. if w_id r = w_id w then w else r) (watches d)\<rparr>"
| "apply_write (Update_User u) d =
     d\<lparr>users := map (\<lambda>r. if u_id r = u_id u then u else r) (users d)\<rparr>"
| "apply_write (Insert_OwnershipTransfer t) d =
     d\<lparr>ownership_transfers := ownership_transfers d @
        [t\<lparr>ot_id := next_id (map ot_id (ownership_transfers d))\<rparr>]\<rparr>"
| "apply_write (Insert_Commission c) d =
     d\<lparr>commissions := commissions d @ [c\<lparr>c_id := next_id (map c_id (commissions d))\<rparr>]\<rparr>"
| "apply_write (Insert_Escrow e) d =
     d\<lparr>escrows := escrows d @ [e\<lparr>es_id := next_id (map es_id (escrows d))\<rparr>]\<rparr>"
| "apply_write (Update_Escrow e) d =
     d\<lparr>escrows := map (\<lambda>r. if es_id r = es_id e then e else r) (escrows d)\<rparr>"
| "apply_write (Update_Store st) d =
     d\<lparr>stores := map (\<lambda>r. if s_id r = s_id st then st else r) (stores d)\<rparr>"
| "apply_write (Insert_Notification n) d =
     d\<lparr>notifications := notifications d @
        [n\<lparr>n_id := next_id (map n_id (notifications d))\<rparr>]\<rparr>"

definition commit :: "db_write list \<Rightarrow> db \<Rightarrow> db" where
  "commit ws d = fold apply_write ws d"

text \<open>
  Modelled from the spec: \<^verbatim>\<open>app/routers/notifications.py\<close> is missing; the Notification
  Emitter "records a message for a user", so \<^verbatim>\<open>create_notification\<close> inserts one row in a
  commit of its own. The message text (a formatted float) is not kept.
\<close>

definition create_notification :: "int option \<Rightarrow> string \<Rightarrow> string \<Rightarrow> db \<Rightarrow> db" where
  "create_notification user_id title type d =
     commit [Insert_Notification \<lparr>n_id = None, n_user_id = user_id, n_title = title, n_type = type\<rparr>] d"

subsection \<open>Python values\<close>

definition truthy :: "string option \<Rightarrow> bool" where
  "truthy s = (case s of None \<Rightarrow> False | Some v \<Rightarrow> v \<noteq> [])"

definition str_or :: "string option \<Rightarrow> string \<Rightarrow> string" where
  "str_or s dflt = (case s of None \<Rightarrow> dflt | Some v \<Rightarrow> if v = [] then dflt else v)"

fun digits :: "nat \<Rightarrow> string" where
  "digits n = (if n < 10 then [''0123456789'' ! n]
               else digits (n div 10) @ [''0123456789'' ! (n mod 10)])"

declare digits.simps [simp del]

definition str_int :: "int \<Rightarrow> string" where
  "str_int i = (if i < 0 then CHR ''-'' # digits (nat (- i)) else digits (nat i))"

definition str_id :: "int option \<Rightarrow> string" where
  "str_id i = (case i of None \<Rightarrow> ''None'' | Some n \<Rightarrow> str_int n)"

subsection \<open>Authentication (app/auth.py)\<close>

text \<open>
  The decoded JWT payload. \<^verbatim>\<open>login\<close> issues it with \<^verbatim>\<open>sub = str(user.id)\<close> and
  \<^verbatim>\<open>role = user.role\<close>; the handlers read \<^verbatim>\<open>int(current_user["sub"])\<close>.
\<close>

record token_payload =
  tp_sub :: int
  tp_role :: string

definition require_role :: "string list \<Rightarrow> token_payload \<Rightarrow> exn + token_payload" where
  "require_role required_roles payload =
     (if tp_role payload \<notin> set required_roles then Inl (HTTPException 403 Permissao_negada)
      else Inr payload)"

section \<open>External collaborators\<close>

text \<open>
  \<^verbatim>\<open>app/stellar.py\<close> is an external collaborator (payment and blockchain adapters): each
  call either returns a result dictionary or raises. The adapters are parameters of the
  handlers.
\<close>

record payment_result =
  pr_status :: string
  pr_tx_hash :: string

record transfer_result =
  tr_status :: string
  tr_tx_hash :: string

record nft_result =
  nr_status :: string
  nr_asset_code :: string
  nr_issuer :: string
  nr_blockchain_address :: "string option"

record adapters =
  simulate_payment_conversion :: "real \<Rightarrow> string \<Rightarrow> int \<Rightarrow> payment_result outcome"
  transfer_nft :: "string \<Rightarrow> string \<Rightarrow> string \<Rightarrow> transfer_result outcome"
  create_nft_asset ::
    "int option \<Rightarrow> string \<Rightarrow> string \<Rightarrow> string \<Rightarrow> string option \<Rightarrow> nft_result outcome"
  marketplace_keypair_public :: string

section \<open>Purchase (app/routers/watches.py, first handler of POST /watches/{watch_id}/purchase)\<close>

record purchase_payload =
  pp_payment_method :: string
  pp_installments :: "int option"
  pp_card_number :: "string option"
  pp_card_name :: "string option"
  pp_card_expiry :: "string option"
  pp_card_cvv :: "string option"
  pp_cpf :: "string option"

record purchase_response =
  resp_transfer_id :: "int option"
  resp_payment_hash :: string
  resp_nft_transfer_hash :: string
  resp_price_brl :: real
  resp_payment_method :: string
  resp_installments :: int
  resp_buyer_id :: "int option"
  resp_seller_id :: "int option"
  resp_watch_id :: "int option"

text \<open>\<^verbatim>\<open>price_brl = watch.current_value_brl or 50000.0\<close>\<close>

definition resolve_price :: "watch \<Rightarrow> real" where
  "resolve_price watch =
     (case w_current_value_brl watch of None \<Rightarrow> 50000 | Some v \<Rightarrow> if v = 0 then 50000 else v)"

text \<open>The checks per payment method (lines 366 to 373); each raises inside the \<^verbatim>\<open>try\<close>.\<close>

definition validate_payment :: "purchase_payload \<Rightarrow> exn + unit" where
  "validate_payment purchase =
     (if pp_payment_method purchase = ''credit_card'' then
        (if \<not> (truthy (pp_card_number purchase) \<and> truthy (pp_card_name purchase) \<and>
                truthy (pp_card_expiry purchase) \<and> truthy (pp_card_cvv purchase))
         then Inl (HTTPException 400 Dados_do_cartao_incompletos)
         else if \<not> truthy (pp_cpf purchase)
         then Inl (HTTPException 400 CPF_e_obrigatorio_para_pagamento_com_cartao)
         else Inr ())
      else if pp_payment_method purchase = ''pix'' then
        (if \<not> truthy (pp_cpf purchase) then Inl (HTTPException 400 CPF_e_obrigatorio_para_PIX)
         else Inr ())
      else Inr ())"

text \<open>
  The \<^verbatim>\<open>try\<close> block of lines 362 to 378: any exception, also the validation's own
  \<^verbatim>\<open>HTTPException\<close>, is caught and raised again with status 500.
\<close>

definition process_payment ::
  "adapters \<Rightarrow> purchase_payload \<Rightarrow> real \<Rightarrow> exn + (payment_result \<times> int)" where
  "process_payment ad purchase price_brl =
     (let installments =
            (case pp_installments purchase of None \<Rightarrow> 1 | Some n \<Rightarrow> if n = 0 then 1 else n)
      in case validate_payment purchase of
           Inl e \<Rightarrow> Inl (HTTPException 500 (Erro_na_simulacao_de_pagamento e))
         | Inr _ \<Rightarrow>
             (case simulate_payment_conversion ad price_brl (pp_payment_method purchase) installments of
                Raised e \<Rightarrow> Inl (HTTPException 500 (Erro_na_simulacao_de_pagamento e))
              | Returned payment_result \<Rightarrow> Inr (payment_result, installments)))"

text \<open>
  Lines 389 to 399: the token transfer; when the call raises, a synthetic successful
  result takes its place.
\<close>

definition resolve_transfer :: "adapters \<Rightarrow> watch \<Rightarrow> user \<Rightarrow> user \<Rightarrow> token_payload \<Rightarrow> transfer_result" where
  "resolve_transfer ad watch seller buyer current_user =
     (case transfer_nft ad
             (str_or (w_nft_code watch) (''NFT'' @ str_id (w_id watch)))
             (str_or (u_stellar_secret seller) ''SIMULATED_SECRET'')
             (str_or (u_stellar_public_key buyer) ''SIMULATED_PUBLIC'') of
        Returned r \<Rightarrow> r
      | Raised e \<Rightarrow>
          \<lparr>tr_status = ''success'',
           tr_tx_hash = ''simulated_transfer_'' @ str_id (w_id watch) @ ''_'' @ str_int (tp_sub current_user)\<rparr>)"

text \<open>The objects of lines 403 to 426, as constructed (no key yet).\<close>

definition sale_transfer :: "watch \<Rightarrow> token_payload \<Rightarrow> transfer_result \<Rightarrow> real \<Rightarrow> ownership_transfer" where
  "sale_transfer watch current_user transfer_result price_brl =
     \<lparr>ot_id = None,
      ot_watch_id = w_id watch,
      ot_from_user_id = w_current_owner_user_id watch,
      ot_to_user_id = tp_sub current_user,
      ot_stellar_tx_hash = tr_tx_hash transfer_result,
      ot_type = ''sale'',
      ot_price_brl = price_brl,
      ot_admin_fee_brl = price_brl * 0.03\<rparr>"

definition commission_description :: "watch \<Rightarrow> string" where
  "commission_description watch =
     ''Comiss'' @ [CHR 0xC3, CHR 0xA3] @ ''o da venda do rel'' @ [CHR 0xC3, CHR 0xB3] @ ''gio '' @
     w_brand watch @ '' '' @ w_model watch"

definition sale_commission :: "ownership_transfer \<Rightarrow> watch \<Rightarrow> real \<Rightarrow> commission" where
  "sale_commission transfer watch price_brl =
     \<lparr>c_id = None,
      c_transaction_id = ot_id transfer,
      c_transaction_type = ''sale'',
      c_recipient_user_id = 1,
      c_amount_brl = price_brl * 0.03,
      c_description = commission_description watch\<rparr>"

definition sold_watch :: "watch \<Rightarrow> token_payload \<Rightarrow> watch" where
  "sold_watch watch current_user =
     watch\<lparr>w_current_owner_user_id := tp_sub current_user, w_status := ''sold''\<rparr>"

definition relogio_vendido :: string where
  "relogio_vendido = ''Rel'' @ [CHR 0xC3, CHR 0xB3] @ ''gio Vendido''"

text \<open>Lines 401 to 469: the unit of work of a sale, the two notifications, the response.\<close>

definition complete_sale ::
  "watch \<Rightarrow> user \<Rightarrow> user \<Rightarrow> token_payload \<Rightarrow> purchase_payload \<Rightarrow> payment_result \<Rightarrow> int \<Rightarrow>
   transfer_result \<Rightarrow> real \<Rightarrow> db \<Rightarrow> (exn + purchase_response) \<times> db" where
  "complete_sale watch seller buyer current_user purchase payment_result installments
       transfer_result price_brl d =
     (let transfer = sale_transfer watch current_user transfer_result price_brl;
          watch' = sold_watch watch current_user;
          commission = sale_commission transfer watch' price_brl;
          d1 = commit [Insert_OwnershipTransfer transfer, Update_Watch watch',
                       Insert_Commission commission] d;
          d2 = create_notification (u_id seller) relogio_vendido ''success'' d1;
          d3 = create_notification (u_id buyer) ''Compra Realizada'' ''success'' d2
      in (Inr \<lparr>resp_transfer_id = next_id (map ot_id (ownership_transfers d)),
               resp_payment_hash = pr_tx_hash payment_result,
               resp_nft_transfer_hash = tr_tx_hash transfer_result,
               resp_price_brl = price_brl,
               resp_payment_method = pp_payment_method purchase,
               resp_installments = installments,
               resp_buyer_id = u_id buyer,
               resp_seller_id = u_id seller,
               resp_watch_id = w_id watch\<rparr>, d3))"

definition purchase_watch ::
  "adapters \<Rightarrow> int \<Rightarrow> purchase_payload \<Rightarrow> token_payload \<Rightarrow> db \<Rightarrow> (exn + purchase_response) \<times> db" where
  "purchase_watch ad watch_id purchase current_user d =
     (case find (\<lambda>w. w_id w = Some watch_id \<and> w_status w = ''for_sale'') (watches d) of
        None \<Rightarrow> (Inl (HTTPException 404 Relogio_nao_disponivel_para_venda), d)
      | Some watch \<Rightarrow>
          (case find (\<lambda>u. u_id u = Some (w_current_owner_user_id watch)) (users d) of
             None \<Rightarrow> (Inl (HTTPException 400 Usuarios_so_podem_comprar_relogios_de_lojas_credenciadas), d)
           | Some owner \<Rightarrow>
               if u_role owner \<noteq> ''store''
               then (Inl (HTTPException 400 Usuarios_so_podem_comprar_relogios_de_lojas_credenciadas), d)
               else if w_current_owner_user_id watch = tp_sub current_user
               then (Inl (HTTPException 400 Voce_nao_pode_comprar_seu_proprio_relogio), d)
               else
                 (let price_brl = resolve_price watch in
                  case process_payment ad purchase price_brl of
                    Inl e \<Rightarrow> (Inl e, d)
                  | Inr (payment_result, installments) \<Rightarrow>
                      if pr_status payment_result = ''success'' then
                        (case (find (\<lambda>u. u_id u = Some (tp_sub current_user)) (users d),
                               find (\<lambda>u. u_id u = Some (w_current_owner_user_id watch)) (users d)) of
                           (Some buyer, Some seller) \<Rightarrow>
                             (let transfer_result = resolve_transfer ad watch seller buyer current_user in
                              if tr_status transfer_result = ''success''
                              then complete_sale watch seller buyer current_user purchase
                                     payment_result installments transfer_result price_brl d
                              else (Inl (HTTPException 400 Falha_no_pagamento), d))
                         | _ \<Rightarrow> (Inl (HTTPException 404 Usuario_nao_encontrado), d))
                      else (Inl (HTTPException 400 Falha_no_pagamento), d))))"

text \<open>The route with its dependency \<^verbatim>\<open>require_role(["user"])\<close>.\<close>

definition post_purchase ::
  "adapters \<Rightarrow> int \<Rightarrow> purchase_payload \<Rightarrow> token_payload \<Rightarrow> db \<Rightarrow> (exn + purchase_response) \<times> db" where
  "post_purchase ad watch_id purchase token d =
     (case require_role [''user''] token of
        Inl e \<Rightarrow> (Inl e, d)
      | Inr current_user \<Rightarrow> purchase_watch ad watch_id purchase current_user d)"


section \<open>Tokenization (app/routers/watches.py, POST /watches/{watch_id}/tokenize)\<close>

text \<open>
  The names bound at module scope in \<^verbatim>\<open>watches.py\<close>: the imports of lines 2 to 13, the
  router and the functions that the module defines. \<^verbatim>\<open>Evaluator\<close> is imported only inside
  \<^verbatim>\<open>create_watch\<close> (line 43), where it is a local name of that function. Reading a global
  name that is not bound raises \<^verbatim>\<open>NameError\<close>.
\<close>

definition module_names :: "string list" where
  "module_names =
     [''os'', ''APIRouter'', ''Depends'', ''UploadFile'', ''File'', ''Form'', ''HTTPException'',
      ''JSONResponse'', ''Session'', ''List'', ''WatchCreate'', ''WatchOut'',
      ''MarketplaceListing'', ''PurchasePayload'', ''OwnershipTransferOut'', ''StoreOut'',
      ''require_role'', ''get_db'', ''Watch'', ''User'', ''OwnershipTransfer'', ''Notification'',
      ''Commission'', ''Store'', ''create_nft_asset'', ''transfer_nft'', ''get_nft_history'',
      ''simulate_payment_conversion'', ''create_notification'', ''uuid4'', ''router'',
      ''create_watch'', ''tokenize_watch'', ''create_watch_with_image'', ''list_watches'',
      ''list_watches_for_sale'', ''my_watches'', ''marketplace_watches'', ''get_watch'',
      ''list_for_sale'', ''purchase_watch'', ''watch_history'', ''watch_blockchain_history'',
      ''put_watch_for_sale'', ''get_store_info'', ''store_sales_history'']"

definition global_name :: "string \<Rightarrow> exn + unit" where
  "global_name n = (if n \<in> set module_names then Inr () else Inl (NameError n))"

definition relogio_tokenizado :: string where
  "relogio_tokenizado = ''Rel'' @ [CHR 0xC3, CHR 0xB3] @ ''gio Tokenizado''"

text \<open>
  The \<^verbatim>\<open>except Exception\<close> clause of lines 169 to 173: the watch, with the attribute
  changes made so far, is committed with status \<^verbatim>\<open>nft_failed\<close>.
\<close>

definition tokenize_failed :: "exn \<Rightarrow> watch \<Rightarrow> db \<Rightarrow> (exn + watch) \<times> db" where
  "tokenize_failed e watch d =
     (Inl (HTTPException 500 (Erro_na_tokenizacao e)),
      commit [Update_Watch (watch\<lparr>w_status := ''nft_failed''\<rparr>)] d)"

text \<open>Lines 120 to 173: the caller's Stellar key, the mint, the three outcomes.\<close>

definition mint_token :: "adapters \<Rightarrow> watch \<Rightarrow> token_payload \<Rightarrow> db \<Rightarrow> (exn + watch) \<times> db" where
  "mint_token ad watch current_user d =
     (case find (\<lambda>u. u_id u = Some (tp_sub current_user)) (users d) of
        None \<Rightarrow> tokenize_failed (AttributeError ''stellar_public_key'') watch d
      | Some user0 \<Rightarrow>
          (let user = (if \<not> truthy (u_stellar_public_key user0)
                       then user0\<lparr>u_stellar_public_key := Some (marketplace_keypair_public ad)\<rparr>
                       else user0);
               d0 = (if \<not> truthy (u_stellar_public_key user0) then commit [Update_User user] d else d)
           in case create_nft_asset ad (w_id watch) (w_brand watch) (w_model watch)
                     (w_serial_number watch) (u_stellar_public_key user) of
                Raised e \<Rightarrow> tokenize_failed e watch d0
              | Returned nft_result \<Rightarrow>
                  if nr_status nft_result = ''success'' then
                    (let watch' = watch\<lparr>w_nft_code := Some (nr_asset_code nft_result),
                                         w_nft_issuer := Some (nr_issuer nft_result),
                                         w_blockchain_address :=
                                           Some (case nr_blockchain_address nft_result of
                                                   None \<Rightarrow> nr_issuer nft_result | Some a \<Rightarrow> a),
                                         w_status := ''tokenized''\<rparr>
                     in case w_current_value_brl watch' of
                          None \<Rightarrow> tokenize_failed (TypeError ''NoneType * float'') watch' d0
                        | Some v \<Rightarrow>
                            (Inr watch',
                             create_notification (Some (tp_sub current_user)) relogio_tokenizado
                               ''success'' (commit [Update_Watch watch'] d0)))
                  else
                    tokenize_failed (HTTPException 500 Falha_na_tokenizacao_NFT)
                      (watch\<lparr>w_status := ''nft_error''\<rparr>)
                      (commit [Update_Watch (watch\<lparr>w_status := ''nft_error''\<rparr>)] d0)))"

definition tokenize_watch :: "adapters \<Rightarrow> int \<Rightarrow> token_payload \<Rightarrow> db \<Rightarrow> (exn + watch) \<times> db" where
  "tokenize_watch ad watch_id current_user d =
     (case find (\<lambda>w. w_id w = Some watch_id) (watches d) of
        None \<Rightarrow> (Inl (HTTPException 404 Relogio_nao_encontrado), d)
      | Some watch \<Rightarrow>
          (case global_name ''Evaluator'' of
             Inl e \<Rightarrow> (Inl e, d)
           | Inr _ \<Rightarrow>
               (case find (\<lambda>e. e_user_id e = tp_sub current_user) (evaluators d) of
                  None \<Rightarrow> (Inl (HTTPException 403 Usuario_nao_e_um_avaliador_credenciado), d)
                | Some evaluator \<Rightarrow>
                    if w_status watch = ''tokenized''
                    then (Inl (HTTPException 400 Relogio_ja_foi_tokenizado), d)
                    else if w_status watch \<notin> set [''evaluated'', ''registered'']
                    then (Inl (HTTPException 400 Relogio_deve_estar_avaliado_para_ser_tokenizado), d)
                    else mint_token ad watch current_user d)))"

definition post_tokenize :: "adapters \<Rightarrow> int \<Rightarrow> token_payload \<Rightarrow> db \<Rightarrow> (exn + watch) \<times> db" where
  "post_tokenize ad watch_id token d =
     (case require_role [''evaluator''] token of
        Inl e \<Rightarrow> (Inl e, d)
      | Inr current_user \<Rightarrow> tokenize_watch ad watch_id current_user d)"

section \<open>Registration of users and watches\<close>








section \<open>Purchase through escrow (watches.py, second handler of POST /watches/{watch_id}/purchase)\<close>

text \<open>
  Lines 537 to 577 define \<^verbatim>\<open>purchase_watch\<close> a second time, on the same method and path.
  The router holds both routes and gives a request to the first route that matches, so
  every request of \<^verbatim>\<open>POST /watches/{watch_id}/purchase\<close> is served by the handler of line
  338 and this one is never called. The confirmation flags of the new escrow take the
  column's default, false.
\<close>

record purchase_started =
  ps_escrow_id :: "int option"
  ps_total_paid_brl :: "real option"
  ps_watch_id :: int

definition purchase_watch_2 :: "int \<Rightarrow> token_payload \<Rightarrow> db \<Rightarrow> (exn + purchase_started) \<times> db" where
  "purchase_watch_2 watch_id current_user d =
     (case find (\<lambda>w. w_id w = Some watch_id \<and> w_status w = ''for_sale'') (watches d) of
        None \<Rightarrow> (Inl (HTTPException 404 Relogio_nao_encontrado_ou_nao_disponivel), d)
      | Some watch \<Rightarrow>
          (let escrow = \<lparr>es_id = None,
                          es_offer_id = None,
                          es_watch_id = Some watch_id,
                          es_buyer_id = Some (tp_sub current_user),
                          es_seller_id = Some (w_current_owner_user_id watch),
                          es_amount_brl = w_price_brl watch,
                          es_status = ''pending'',
                          es_seller_confirmed = False,
                          es_evaluator_confirmed = False\<rparr>;
               d1 = commit [Insert_Escrow escrow] d;
               d2 = commit [Update_Watch (watch\<lparr>w_status := ''sold''\<rparr>)] d1
           in (Inr \<lparr>ps_escrow_id = next_id (map es_id (escrows d)),
                    ps_total_paid_brl = w_price_brl watch,
                    ps_watch_id = watch_id\<rparr>, d2)))"

section \<open>Escrow confirmation (app/routers/stellar_contracts.py)\<close>

text \<open>
  Modelled from the spec: \<^verbatim>\<open>app/stellar_contracts.py\<close>, the escrow contract that the route
  calls through \<^verbatim>\<open>stellar_contracts.get_escrow()\<close>, is missing. Section 4.3 of the spec
  gives its states: "pending, then (seller_confirmed and evaluator_confirmed), then
  released. No transition out of released"; section 3: "release only when both
  confirmation flags are true". The confirmation of a party sets that party's flag.
\<close>

definition confirm_flag :: "string \<Rightarrow> escrow \<Rightarrow> escrow" where
  "confirm_flag confirmer_type escrow =
     (if confirmer_type = ''seller'' then escrow\<lparr>es_seller_confirmed := True\<rparr>
      else if confirmer_type = ''evaluator'' then escrow\<lparr>es_evaluator_confirmed := True\<rparr>
      else escrow)"

definition release_if_confirmed :: "escrow \<Rightarrow> escrow" where
  "release_if_confirmed escrow =
     (if es_status escrow = ''pending'' \<and> es_seller_confirmed escrow \<and> es_evaluator_confirmed escrow
      then escrow\<lparr>es_status := ''released''\<rparr>
      else escrow)"

definition escrow_confirm_delivery :: "int \<Rightarrow> string \<Rightarrow> db \<Rightarrow> (exn + escrow) \<times> db" where
  "escrow_confirm_delivery escrow_id confirmer_type d =
     (case find (\<lambda>e. es_id e = Some escrow_id) (escrows d) of
        None \<Rightarrow> (Inl (ValueError ''escrow''), d)
      | Some escrow \<Rightarrow>
          (Inr (release_if_confirmed (confirm_flag confirmer_type escrow)),
           commit [Update_Escrow (release_if_confirmed (confirm_flag confirmer_type escrow))] d))"

text \<open>
  The route \<^verbatim>\<open>confirm_delivery\<close> (lines 195 to 226): the caller's role selects the
  confirming party; every exception, also the route's own 403, leaves as a 500.
\<close>

definition confirmer_type :: "user \<Rightarrow> exn + string" where
  "confirmer_type current_user =
     (if u_role current_user = ''user'' then Inr ''seller''
      else if u_role current_user = ''evaluator'' then Inr ''evaluator''
      else Inl (HTTPException 403 Apenas_vendedores_e_avaliadores_podem_confirmar_entrega))"

definition confirm_delivery :: "int \<Rightarrow> user \<Rightarrow> db \<Rightarrow> (exn + escrow) \<times> db" where
  "confirm_delivery escrow_id current_user d =
     (case confirmer_type current_user of
        Inl e \<Rightarrow> (Inl (HTTPException 500 (Erro_na_confirmacao e)), d)
      | Inr party \<Rightarrow>
          (case escrow_confirm_delivery escrow_id party d of
             (Inl e, d') \<Rightarrow> (Inl (HTTPException 500 (Erro_na_confirmacao e)), d')
           | (Inr result, d') \<Rightarrow> (Inr result, d')))"

section \<open>The other routes that write watches, users, stores and evaluators\<close>


















section \<open>The public operations\<close>








section \<open>The error kinds of the spec\<close>

text \<open>
  Section 7 of the spec names the kinds of error that a caller sees. On the HTTP surface
  a kind is the status of the answer: 400 for \<^verbatim>\<open>InvalidRequest\<close>, 404 for \<^verbatim>\<open>NotFound\<close>,
  409 for \<^verbatim>\<open>ConflictState\<close>.
\<close>

definition InvalidRequest :: "exn \<Rightarrow> bool" where
  "InvalidRequest e = (http_status e = 400)"

definition NotFound :: "exn \<Rightarrow> bool" where
  "NotFound e = (http_status e = 404)"

definition ConflictState :: "exn \<Rightarrow> bool" where
  "ConflictState e = (http_status e = 409)"

section \<open>A scenario\<close>

text \<open>
  The end-to-end scenario of the spec (section 8): watch 42 is for sale at 95000.00 and
  belongs to store 7; user 9 pays by pix with a tax id.
\<close>

definition example_store_user :: user where
  "example_store_user = \<lparr>u_id = Some 7, u_full_name = ''Loja Sete'', u_email = ''loja@example.com'',
     u_role = ''store'', u_stellar_public_key = Some ''GSTORE'', u_stellar_secret = Some ''SSTORE''\<rparr>"

definition example_buyer :: user where
  "example_buyer = \<lparr>u_id = Some 9, u_full_name = ''Cliente Nove'', u_email = ''cliente@example.com'',
     u_role = ''user'', u_stellar_public_key = Some ''GBUYER'', u_stellar_secret = Some ''SBUYER''\<rparr>"

definition example_evaluator_user :: user where
  "example_evaluator_user = \<lparr>u_id = Some 3, u_full_name = ''Avaliador'', u_email = ''aval@example.com'',
     u_role = ''evaluator'', u_stellar_public_key = Some ''GEVAL'', u_stellar_secret = Some ''SEVAL''\<rparr>"

definition example_watch :: watch where
  "example_watch = \<lparr>w_id = Some 42, w_serial_number = ''SN42'', w_brand = ''Rolex'',
     w_model = ''Submariner'', w_current_value_brl = Some 95000, w_price_brl = None,
     w_current_owner_user_id = 7, w_status = ''for_sale'', w_store_id = None,
     w_nft_code = None, w_nft_issuer = None, w_blockchain_address = None\<rparr>"

definition example_db :: db where
  "example_db = empty_db\<lparr>users := [example_store_user, example_buyer], watches := [example_watch]\<rparr>"

definition example_token :: token_payload where
  "example_token = \<lparr>tp_sub = 9, tp_role = ''user''\<rparr>"

definition example_store_token :: token_payload where
  "example_store_token = \<lparr>tp_sub = 7, tp_role = ''store''\<rparr>"

definition example_evaluator_token :: token_payload where
  "example_evaluator_token = \<lparr>tp_sub = 3, tp_role = ''evaluator''\<rparr>"

definition example_pix :: purchase_payload where
  "example_pix = \<lparr>pp_payment_method = ''pix'', pp_installments = None, pp_card_number = None,
     pp_card_name = None, pp_card_expiry = None, pp_card_cvv = None, pp_cpf = Some ''12345678909''\<rparr>"

definition example_adapters :: adapters where
  "example_adapters =
     \<lparr>simulate_payment_conversion = (\<lambda>amount method installments.
        Returned \<lparr>pr_status = ''success'', pr_tx_hash = ''pay_1''\<rparr>),
      transfer_nft = (\<lambda>asset_code from_secret to_public.
        Returned \<lparr>tr_status = ''success'', tr_tx_hash = ''tx_1''\<rparr>),
      create_nft_asset = (\<lambda>watch_id brand model serial receiver.
        Returned \<lparr>nr_status = ''success'', nr_asset_code = ''NFT42'', nr_issuer = ''GISSUER'',
                  nr_blockchain_address = None\<rparr>),
      marketplace_keypair_public = ''GMARKET''\<rparr>"

text \<open>The payment adapter declines; the blockchain adapter is unreachable.\<close>

definition example_declining_adapters :: adapters where
  "example_declining_adapters = example_adapters\<lparr>simulate_payment_conversion :=
     (\<lambda>amount method installments. Returned \<lparr>pr_status = ''failed'', pr_tx_hash = ''none''\<rparr>)\<rparr>"

definition example_unreachable_adapters :: adapters where
  "example_unreachable_adapters = example_adapters\<lparr>transfer_nft :=
     (\<lambda>asset_code from_secret to_public. Raised (AdapterError ''connection refused''))\<rparr>"

text \<open>The same ledger with watch 42 sold to user 9, and with watch 42 tokenized.\<close>

definition example_sold_db :: db where
  "example_sold_db = example_db\<lparr>watches :=
     [example_watch\<lparr>w_current_owner_user_id := 9, w_status := ''sold''\<rparr>]\<rparr>"

definition example_tokenized_db :: db where
  "example_tokenized_db = example_db\<lparr>users := [example_store_user, example_buyer, example_evaluator_user],
     evaluators := [\<lparr>e_id = Some 1, e_user_id = 3, e_store_id = None\<rparr>],
     watches := [example_watch\<lparr>w_status := ''tokenized'', w_nft_code := Some ''NFT42'',
                   w_nft_issuer := Some ''GISSUER''\<rparr>]\<rparr>"

text \<open>An escrow that only the seller has confirmed.\<close>

definition example_escrow :: escrow where
  "example_escrow = \<lparr>es_id = Some 5, es_offer_id = Some 1, es_watch_id = None, es_buyer_id = None,
     es_seller_id = None, es_amount_brl = None, es_status = ''pending'',
     es_seller_confirmed = True, es_evaluator_confirmed = False\<rparr>"

definition example_escrow_db :: db where
  "example_escrow_db = empty_db\<lparr>users := [example_buyer, example_evaluator_user],
     escrows := [example_escrow]\<rparr>"



section \<open>The invariant of the ledger\<close>




lemmas example_defs = example_store_user_def example_buyer_def example_watch_def example_db_def
  example_token_def example_pix_def example_adapters_def empty_db_def

section \<open>Properties of the purchase handler\<close>

lemma find_SomeD: "find P xs = Some x \<Longrightarrow> P x \<and> x \<in> set xs"
  by (auto simp: find_Some_iff)

lemma distinct_find_row:
  assumes "distinct (map f xs)" and "x \<in> set xs" and "f x = k"
    and "find (\<lambda>y. f y = k \<and> P y) xs = Some y"
  shows "y = x"
proof -
  from find_SomeD [OF assms(4)] have "y \<in> set xs" and "f y = f x"
    using assms(3) by simp_all
  with assms(1,2) show ?thesis
    by (auto simp: distinct_map dest: inj_onD)
qed

text \<open>When every check passes, the call is the unit of work of a sale.\<close>

lemma purchase_watch_success:
  assumes "find (\<lambda>w. w_id w = Some watch_id \<and> w_status w = ''for_sale'') (watches d) = Some watch"
    and "find (\<lambda>u. u_id u = Some (w_current_owner_user_id watch)) (users d) = Some owner"
    and "u_role owner = ''store''"
    and "w_current_owner_user_id watch \<noteq> tp_sub current_user"
    and "find (\<lambda>u. u_id u = Some (tp_sub current_user)) (users d) = Some buyer"
    and "process_payment ad purchase (resolve_price watch) = Inr (payment_result, installments)"
    and "pr_status payment_result = ''success''"
    and "tr_status (resolve_transfer ad watch owner buyer current_user) = ''success''"
  shows "purchase_watch ad watch_id purchase current_user d =
           complete_sale watch owner buyer current_user purchase payment_result installments
             (resolve_transfer ad watch owner buyer current_user) (resolve_price watch) d"
  using assms by (simp add: purchase_watch_def Let_def)

lemma complete_sale_result:
  "\<exists>resp. fst (complete_sale watch seller buyer cu purchase pr inst tr price d) = Inr resp"
  by (simp add: complete_sale_def Let_def)

lemma complete_sale_db:
  "snd (complete_sale watch seller buyer cu purchase pr inst tr price d) =
     create_notification (u_id buyer) ''Compra Realizada'' ''success''
       (create_notification (u_id seller) relogio_vendido ''success''
          (commit [Insert_OwnershipTransfer (sale_transfer watch cu tr price),
                   Update_Watch (sold_watch watch cu),
                   Insert_Commission (sale_commission (sale_transfer watch cu tr price)
                                        (sold_watch watch cu) price)] d))"
  by (simp add: complete_sale_def Let_def)

lemma complete_sale_transfers:
  "ownership_transfers (snd (complete_sale watch seller buyer cu purchase pr inst tr price d)) =
     ownership_transfers d @
       [(sale_transfer watch cu tr price)\<lparr>ot_id := next_id (map ot_id (ownership_transfers d))\<rparr>]"
  by (simp add: complete_sale_def Let_def commit_def create_notification_def)

lemma complete_sale_commissions:
  "commissions (snd (complete_sale watch seller buyer cu purchase pr inst tr price d)) =
     commissions d @
       [(sale_commission (sale_transfer watch cu tr price) (sold_watch watch cu) price)
          \<lparr>c_id := next_id (map c_id (commissions d))\<rparr>]"
  by (simp add: complete_sale_def Let_def commit_def create_notification_def)

lemma complete_sale_watches:
  "watches (snd (complete_sale watch seller buyer cu purchase pr inst tr price d)) =
     map (\<lambda>r. if w_id r = w_id watch then sold_watch watch cu else r) (watches d)"
  by (simp add: complete_sale_def Let_def commit_def create_notification_def sold_watch_def)

text \<open>The scenario passes every check of the handler.\<close>

lemma example_lookups:
  "find (\<lambda>w. w_id w = Some 42 \<and> w_status w = ''for_sale'') (watches example_db) = Some example_watch"
  "find (\<lambda>u. u_id u = Some (w_current_owner_user_id example_watch)) (users example_db) =
     Some example_store_user"
  "u_role example_store_user = ''store''"
  "w_current_owner_user_id example_watch \<noteq> tp_sub example_token"
  "find (\<lambda>u. u_id u = Some (tp_sub example_token)) (users example_db) = Some example_buyer"
  by (simp_all add: example_defs)

lemma example_values:
  "ownership_transfers example_db = []"
  "commissions example_db = []"
  "w_id example_watch = Some 42"
  "w_current_owner_user_id example_watch = 7"
  "tp_sub example_token = 9"
  "resolve_price example_watch = 95000"
  by (simp_all add: resolve_price_def example_defs)

lemma example_process_payment:
  "process_payment example_adapters example_pix (resolve_price example_watch) =
     Inr (\<lparr>pr_status = ''success'', pr_tx_hash = ''pay_1''\<rparr>, 1)"
  by (simp add: process_payment_def validate_payment_def truthy_def example_defs)

lemma example_resolve_transfer:
  "resolve_transfer example_adapters example_watch example_store_user example_buyer example_token =
     \<lparr>tr_status = ''success'', tr_tx_hash = ''tx_1''\<rparr>"
  by (simp add: resolve_transfer_def example_defs)

lemma example_purchase:
  "purchase_watch example_adapters 42 example_pix example_token example_db =
     complete_sale example_watch example_store_user example_buyer example_token example_pix
       \<lparr>pr_status = ''success'', pr_tx_hash = ''pay_1''\<rparr> 1
       \<lparr>tr_status = ''success'', tr_tx_hash = ''tx_1''\<rparr> 95000 example_db"
proof -
  have paid: "pr_status \<lparr>pr_status = ''success'', pr_tx_hash = ''pay_1''\<rparr> = ''success''"
    by simp
  have moved: "tr_status (resolve_transfer example_adapters example_watch example_store_user
                 example_buyer example_token) = ''success''"
    by (simp add: example_resolve_transfer)
  show ?thesis
    using purchase_watch_success [OF example_lookups example_process_payment paid moved]
    by (simp add: example_resolve_transfer example_values)
qed

text \<open>
  C1. A purchase of a watch that is for sale and belongs to a user of role store, by a
  registered buyer who is not the owner, whose payment the adapter reports as a success
  and whose token transfer resolves to a success (returned by the adapter, or the
  synthetic one), inserts one OwnershipTransfer row of type sale with the resolved price
  and the fee price times 0.03, gives the watch to the buyer with status sold, and
  inserts one Commission row of that amount, all three in one commit; the two
  notifications follow it.
\<close>

theorem purchase_watch_sale:
  assumes "find (\<lambda>w. w_id w = Some watch_id \<and> w_status w = ''for_sale'') (watches d) = Some watch"
    and "find (\<lambda>u. u_id u = Some (w_current_owner_user_id watch)) (users d) = Some owner"
    and "u_role owner = ''store''"
    and "w_current_owner_user_id watch \<noteq> tp_sub current_user"
    and "find (\<lambda>u. u_id u = Some (tp_sub current_user)) (users d) = Some buyer"
    and "process_payment ad purchase (resolve_price watch) = Inr (payment_result, installments)"
    and "pr_status payment_result = ''success''"
    and "tr_status (resolve_transfer ad watch owner buyer current_user) = ''success''"
  shows "let price = resolve_price watch;
             transfer = sale_transfer watch current_user
                          (resolve_transfer ad watch owner buyer current_user) price;
             watch' = watch\<lparr>w_current_owner_user_id := tp_sub current_user, w_status := ''sold''\<rparr>;
             commission = sale_commission transfer watch' price;
             result = purchase_watch ad watch_id purchase current_user d
         in (\<exists>resp. fst result = Inr resp)
          \<and> snd result =
              create_notification (u_id buyer) ''Compra Realizada'' ''success''
                (create_notification (u_id owner) relogio_vendido ''success''
                   (commit [Insert_OwnershipTransfer transfer, Update_Watch watch',
                            Insert_Commission commission] d))
          \<and> ownership_transfers (snd result) =
              ownership_transfers d @ [transfer\<lparr>ot_id := next_id (map ot_id (ownership_transfers d))\<rparr>]
          \<and> ot_watch_id transfer = Some watch_id
          \<and> ot_type transfer = ''sale''
          \<and> ot_price_brl transfer = price
          \<and> ot_admin_fee_brl transfer = price * 0.03
          \<and> watches (snd result) =
              map (\<lambda>r. if w_id r = Some watch_id then watch' else r) (watches d)
          \<and> commissions (snd result) =
              commissions d @ [commission\<lparr>c_id := next_id (map c_id (commissions d))\<rparr>]
          \<and> c_amount_brl commission = ot_admin_fee_brl transfer"
proof -
  let ?tr = "resolve_transfer ad watch owner buyer current_user"
  let ?t = "sale_transfer watch current_user ?tr (resolve_price watch)"
  let ?w = "watch\<lparr>w_current_owner_user_id := tp_sub current_user, w_status := ''sold''\<rparr>"
  let ?c = "sale_commission ?t ?w (resolve_price watch)"
  let ?r = "purchase_watch ad watch_id purchase current_user d"
  have wid: "w_id watch = Some watch_id"
    using find_SomeD [OF assms(1)] by simp
  have r: "?r = complete_sale watch owner buyer current_user purchase payment_result installments
             ?tr (resolve_price watch) d"
    by (rule purchase_watch_success [OF assms])
  have a: "\<exists>resp. fst ?r = Inr resp"
    unfolding r by (rule complete_sale_result)
  have b: "snd ?r =
      create_notification (u_id buyer) ''Compra Realizada'' ''success''
        (create_notification (u_id owner) relogio_vendido ''success''
           (commit [Insert_OwnershipTransfer ?t, Update_Watch ?w, Insert_Commission ?c] d))"
    unfolding r complete_sale_db sold_watch_def by (rule refl)
  have c: "ownership_transfers (snd ?r) = ownership_transfers d @
      [?t\<lparr>ot_id := next_id (map ot_id (ownership_transfers d))\<rparr>]"
    unfolding r by (rule complete_sale_transfers)
  have d: "watches (snd ?r) = map (\<lambda>r. if w_id r = Some watch_id then ?w else r) (watches d)"
    unfolding r complete_sale_watches sold_watch_def wid by (rule refl)
  have e: "commissions (snd ?r) = commissions d @ [?c\<lparr>c_id := next_id (map c_id (commissions d))\<rparr>]"
    unfolding r complete_sale_commissions sold_watch_def by (rule refl)
  have f: "ot_watch_id ?t = Some watch_id" "ot_type ?t = ''sale''"
    "ot_price_brl ?t = resolve_price watch" "ot_admin_fee_brl ?t = resolve_price watch * 0.03"
    using wid by (simp_all add: sale_transfer_def)
  have g: "c_amount_brl ?c = ot_admin_fee_brl ?t"
    by (simp add: sale_transfer_def sale_commission_def)
  show ?thesis
    unfolding Let_def using a b c d e f g by blast
qed

text \<open>The scenario of the spec: price 95000.00, fee 2850.00, from store 7 to user 9.\<close>

theorem purchase_watch_sale_witness:
  "ownership_transfers (snd (purchase_watch example_adapters 42 example_pix example_token example_db)) =
     [\<lparr>ot_id = Some 1, ot_watch_id = Some 42, ot_from_user_id = 7, ot_to_user_id = 9,
       ot_stellar_tx_hash = ''tx_1'', ot_type = ''sale'', ot_price_brl = 95000,
       ot_admin_fee_brl = 2850\<rparr>]"
proof -
  have paid: "pr_status \<lparr>pr_status = ''success'', pr_tx_hash = ''pay_1''\<rparr> = ''success''"
    by simp
  have moved: "tr_status (resolve_transfer example_adapters example_watch example_store_user
                 example_buyer example_token) = ''success''"
    by (simp add: example_resolve_transfer)
  note t = purchase_watch_sale [OF example_lookups example_process_payment paid moved,
      unfolded Let_def]
  have "ownership_transfers (snd (purchase_watch example_adapters 42 example_pix example_token example_db)) =
      ownership_transfers example_db @
        [(sale_transfer example_watch example_token
            (resolve_transfer example_adapters example_watch example_store_user example_buyer
               example_token)
            (resolve_price example_watch))
           \<lparr>ot_id := next_id (map ot_id (ownership_transfers example_db))\<rparr>]"
    using t by blast
  also have "\<dots> = [\<lparr>ot_id = Some 1, ot_watch_id = Some 42, ot_from_user_id = 7, ot_to_user_id = 9,
       ot_stellar_tx_hash = ''tx_1'', ot_type = ''sale'', ot_price_brl = 95000,
       ot_admin_fee_brl = 2850\<rparr>]"
    by (simp add: example_resolve_transfer sale_transfer_def next_id_def example_values)
  finally show ?thesis .
qed

text \<open>
  C2. When the checks before the payment pass and the payment adapter returns a status
  other than success, the purchase fails with the payment-failed error (400, "Falha no
  pagamento") and the ledger is unchanged: the watch is still for sale with its owner,
  and no row is inserted.
\<close>

theorem purchase_watch_payment_declined:
  assumes "find (\<lambda>w. w_id w = Some watch_id \<and> w_status w = ''for_sale'') (watches d) = Some watch"
    and "find (\<lambda>u. u_id u = Some (w_current_owner_user_id watch)) (users d) = Some owner"
    and "u_role owner = ''store''"
    and "w_current_owner_user_id watch \<noteq> tp_sub current_user"
    and "validate_payment purchase = Inr ()"
    and "simulate_payment_conversion ad (resolve_price watch) (pp_payment_method purchase)
           (case pp_installments purchase of None \<Rightarrow> 1 | Some n \<Rightarrow> if n = 0 then 1 else n) =
         Returned payment_result"
    and "pr_status payment_result \<noteq> ''success''"
  shows "purchase_watch ad watch_id purchase current_user d =
           (Inl (HTTPException 400 Falha_no_pagamento), d)"
  using assms by (simp add: purchase_watch_def process_payment_def Let_def)

theorem purchase_watch_payment_declined_witness:
  "purchase_watch example_declining_adapters 42 example_pix example_token example_db =
     (Inl (HTTPException 400 Falha_no_pagamento), example_db)
   \<and> map w_status (watches example_db) = [''for_sale'']"
proof -
  have valid: "validate_payment example_pix = Inr ()"
    by (simp add: validate_payment_def truthy_def example_defs)
  have declined: "simulate_payment_conversion example_declining_adapters (resolve_price example_watch)
             (pp_payment_method example_pix)
             (case pp_installments example_pix of None \<Rightarrow> 1 | Some n \<Rightarrow> if n = 0 then 1 else n) =
           Returned \<lparr>pr_status = ''failed'', pr_tx_hash = ''none''\<rparr>"
    by (simp add: example_declining_adapters_def example_defs)
  have failed: "pr_status \<lparr>pr_status = ''failed'', pr_tx_hash = ''none''\<rparr> \<noteq> ''success''"
    by simp
  have "map w_status (watches example_db) = [''for_sale'']"
    by (simp add: example_defs)
  with purchase_watch_payment_declined [OF example_lookups(1-4) valid declined failed]
  show ?thesis by blast
qed

text \<open>
  C4 (the code breaks it). The commission is constructed with
  \<^verbatim>\<open>transaction_id=transfer.id\<close> before the session has flushed the transfer, when
  \<^verbatim>\<open>transfer.id\<close> is still \<^verbatim>\<open>None\<close>: in the scenario the transfer row receives the key 1 and
  the commission row of the same commit carries no transfer reference.
\<close>

theorem purchase_watch_commission_reference:
  "map ot_id (ownership_transfers
     (snd (purchase_watch example_adapters 42 example_pix example_token example_db))) = [Some 1]
   \<and> map c_transaction_id (commissions
     (snd (purchase_watch example_adapters 42 example_pix example_token example_db))) = [None]"
  unfolding example_purchase complete_sale_transfers complete_sale_commissions
  by (simp add: sale_commission_def sale_transfer_def next_id_def example_values)

text \<open>
  C6. When the payment succeeds and the call of the blockchain adapter raises, the sale
  completes with the synthetic reference \<^verbatim>\<open>simulated_transfer_{watch id}_{buyer id}\<close>: the
  new OwnershipTransfer row records it, and the watch is sold and belongs to the buyer.
\<close>

theorem purchase_watch_synthetic_reference:
  assumes "find (\<lambda>w. w_id w = Some watch_id \<and> w_status w = ''for_sale'') (watches d) = Some watch"
    and "find (\<lambda>u. u_id u = Some (w_current_owner_user_id watch)) (users d) = Some owner"
    and "u_role owner = ''store''"
    and "w_current_owner_user_id watch \<noteq> tp_sub current_user"
    and "find (\<lambda>u. u_id u = Some (tp_sub current_user)) (users d) = Some buyer"
    and "process_payment ad purchase (resolve_price watch) = Inr (payment_result, installments)"
    and "pr_status payment_result = ''success''"
    and "transfer_nft ad (str_or (w_nft_code watch) (''NFT'' @ str_id (w_id watch)))
           (str_or (u_stellar_secret owner) ''SIMULATED_SECRET'')
           (str_or (u_stellar_public_key buyer) ''SIMULATED_PUBLIC'') = Raised e"
  shows "(\<exists>resp. fst (purchase_watch ad watch_id purchase current_user d) = Inr resp)
       \<and> ownership_transfers (snd (purchase_watch ad watch_id purchase current_user d)) =
           ownership_transfers d @
             [\<lparr>ot_id = next_id (map ot_id (ownership_transfers d)),
               ot_watch_id = Some watch_id,
               ot_from_user_id = w_current_owner_user_id watch,
               ot_to_user_id = tp_sub current_user,
               ot_stellar_tx_hash =
                 ''simulated_transfer_'' @ str_int watch_id @ ''_'' @ str_int (tp_sub current_user),
               ot_type = ''sale'',
               ot_price_brl = resolve_price watch,
               ot_admin_fee_brl = resolve_price watch * 0.03\<rparr>]
       \<and> watches (snd (purchase_watch ad watch_id purchase current_user d)) =
           map (\<lambda>r. if w_id r = Some watch_id
                     then watch\<lparr>w_current_owner_user_id := tp_sub current_user, w_status := ''sold''\<rparr>
                     else r) (watches d)"
proof -
  let ?r = "purchase_watch ad watch_id purchase current_user d"
  have wid: "w_id watch = Some watch_id"
    using find_SomeD [OF assms(1)] by simp
  have tr: "resolve_transfer ad watch owner buyer current_user =
      \<lparr>tr_status = ''success'',
       tr_tx_hash = ''simulated_transfer_'' @ str_int watch_id @ ''_'' @ str_int (tp_sub current_user)\<rparr>"
    using assms(8) wid by (simp add: resolve_transfer_def str_id_def)
  have ok: "tr_status (resolve_transfer ad watch owner buyer current_user) = ''success''"
    unfolding tr by simp
  have r: "?r = complete_sale watch owner buyer current_user purchase payment_result installments
             (resolve_transfer ad watch owner buyer current_user) (resolve_price watch) d"
    by (rule purchase_watch_success [OF assms(1-7) ok])
  have a: "\<exists>resp. fst ?r = Inr resp"
    unfolding r by (rule complete_sale_result)
  have b: "ownership_transfers (snd ?r) = ownership_transfers d @
             [\<lparr>ot_id = next_id (map ot_id (ownership_transfers d)),
               ot_watch_id = Some watch_id,
               ot_from_user_id = w_current_owner_user_id watch,
               ot_to_user_id = tp_sub current_user,
               ot_stellar_tx_hash =
                 ''simulated_transfer_'' @ str_int watch_id @ ''_'' @ str_int (tp_sub current_user),
               ot_type = ''sale'',
               ot_price_brl = resolve_price watch,
               ot_admin_fee_brl = resolve_price watch * 0.03\<rparr>]"
    unfolding r complete_sale_transfers tr using wid by (simp add: sale_transfer_def)
  have c: "watches (snd ?r) =
           map (\<lambda>r. if w_id r = Some watch_id
                     then watch\<lparr>w_current_owner_user_id := tp_sub current_user, w_status := ''sold''\<rparr>
                     else r) (watches d)"
    unfolding r complete_sale_watches sold_watch_def wid by (rule refl)
  show ?thesis
    using a b c by blast
qed

theorem purchase_watch_synthetic_reference_witness:
  "ownership_transfers (snd (purchase_watch example_unreachable_adapters 42 example_pix
     example_token example_db)) =
     [\<lparr>ot_id = Some 1, ot_watch_id = Some 42, ot_from_user_id = 7, ot_to_user_id = 9,
       ot_stellar_tx_hash = ''simulated_transfer_42_9'', ot_type = ''sale'', ot_price_brl = 95000,
       ot_admin_fee_brl = 2850\<rparr>]"
proof -
  have payment: "process_payment example_unreachable_adapters example_pix (resolve_price example_watch) =
     Inr (\<lparr>pr_status = ''success'', pr_tx_hash = ''pay_1''\<rparr>, 1)"
    by (simp add: process_payment_def validate_payment_def truthy_def
        example_unreachable_adapters_def example_defs)
  have paid: "pr_status \<lparr>pr_status = ''success'', pr_tx_hash = ''pay_1''\<rparr> = ''success''"
    by simp
  have raised: "transfer_nft example_unreachable_adapters
           (str_or (w_nft_code example_watch) (''NFT'' @ str_id (w_id example_watch)))
           (str_or (u_stellar_secret example_store_user) ''SIMULATED_SECRET'')
           (str_or (u_stellar_public_key example_buyer) ''SIMULATED_PUBLIC'') =
         Raised (AdapterError ''connection refused'')"
    by (simp add: example_unreachable_adapters_def example_defs)
  have s: "str_int 42 = ''42''" "str_int 9 = ''9''"
    by (simp_all add: str_int_def digits.simps)
  have "ownership_transfers (snd (purchase_watch example_unreachable_adapters 42 example_pix
          example_token example_db)) =
        ownership_transfers example_db @
             [\<lparr>ot_id = next_id (map ot_id (ownership_transfers example_db)),
               ot_watch_id = Some 42,
               ot_from_user_id = w_current_owner_user_id example_watch,
               ot_to_user_id = tp_sub example_token,
               ot_stellar_tx_hash =
                 ''simulated_transfer_'' @ str_int 42 @ ''_'' @ str_int (tp_sub example_token),
               ot_type = ''sale'',
               ot_price_brl = resolve_price example_watch,
               ot_admin_fee_brl = resolve_price example_watch * 0.03\<rparr>]"
    using purchase_watch_synthetic_reference [OF example_lookups payment paid raised] by blast
  also have "\<dots> = [\<lparr>ot_id = Some 1, ot_watch_id = Some 42, ot_from_user_id = 7, ot_to_user_id = 9,
       ot_stellar_tx_hash = ''simulated_transfer_42_9'', ot_type = ''sale'', ot_price_brl = 95000,
       ot_admin_fee_brl = 2850\<rparr>]"
    by (simp add: example_values s next_id_def)
  finally show ?thesis .
qed

text \<open>
  C7, as the claim states it, fails: the purchase of the sold watch 42 is answered with
  404 ("Relogio nao disponivel para venda"), the not-found error, for a caller of role
  user, and with 403 for a caller of role store; neither is a \<^verbatim>\<open>ConflictState\<close>.
\<close>

theorem post_purchase_sold_watch_not_conflict:
  "post_purchase example_adapters 42 example_pix example_token example_sold_db =
     (Inl (HTTPException 404 Relogio_nao_disponivel_para_venda), example_sold_db)
   \<and> NotFound (HTTPException 404 Relogio_nao_disponivel_para_venda)
   \<and> \<not> ConflictState (HTTPException 404 Relogio_nao_disponivel_para_venda)
   \<and> post_purchase example_adapters 42 example_pix example_store_token example_sold_db =
     (Inl (HTTPException 403 Permissao_negada), example_sold_db)
   \<and> \<not> ConflictState (HTTPException 403 Permissao_negada)"
  by (simp add: post_purchase_def require_role_def purchase_watch_def ConflictState_def
      NotFound_def example_sold_db_def example_store_token_def example_defs)

text \<open>
  C7, amended. A purchase of a watch that does not exist or is not for sale always fails
  and changes nothing: with the not-found error (404) when the caller has the role user,
  and with the permission error (403) of the route for every other role.
\<close>

theorem post_purchase_not_for_sale:
  assumes "\<forall>w \<in> set (watches d). w_id w = Some watch_id \<longrightarrow> w_status w \<noteq> ''for_sale''"
  shows "post_purchase ad watch_id purchase token d =
           (Inl (if tp_role token = ''user''
                 then HTTPException 404 Relogio_nao_disponivel_para_venda
                 else HTTPException 403 Permissao_negada), d)"
proof -
  have "find (\<lambda>w. w_id w = Some watch_id \<and> w_status w = ''for_sale'') (watches d) = None"
    using assms by (auto simp: find_None_iff)
  then show ?thesis
    by (simp add: post_purchase_def require_role_def purchase_watch_def)
qed

theorem post_purchase_not_for_sale_witness:
  "snd (post_purchase example_adapters 42 example_pix example_token example_sold_db) = example_sold_db
   \<and> http_status (projl (fst (post_purchase example_adapters 42 example_pix example_token
        example_sold_db))) = 404"
proof -
  have sold: "\<forall>w \<in> set (watches example_sold_db). w_id w = Some 42 \<longrightarrow> w_status w \<noteq> ''for_sale''"
    by (simp add: example_sold_db_def example_defs)
  have role: "tp_role example_token = ''user''"
    by (simp add: example_token_def)
  show ?thesis
    unfolding post_purchase_not_for_sale [OF sold] by (simp add: role)
qed

text \<open>
  C8. A purchase by the current owner of the watch is rejected and changes nothing,
  whatever the payment details and the status of the watch, in the handler and behind
  the role check of the route.
\<close>

theorem purchase_own_watch_rejected:
  assumes "distinct (map w_id (watches d))"
    and "watch \<in> set (watches d)"
    and "w_id watch = Some watch_id"
    and "w_current_owner_user_id watch = tp_sub token"
  shows "isl (fst (purchase_watch ad watch_id purchase token d))
       \<and> snd (purchase_watch ad watch_id purchase token d) = d
       \<and> isl (fst (post_purchase ad watch_id purchase token d))
       \<and> snd (post_purchase ad watch_id purchase token d) = d"
proof -
  have own: "w_current_owner_user_id w = tp_sub token"
    if "find (\<lambda>w. w_id w = Some watch_id \<and> w_status w = ''for_sale'') (watches d) = Some w" for w
    using distinct_find_row [OF assms(1,2,3) that] assms(4) by simp
  have handler: "isl (fst (purchase_watch ad watch_id purchase token d))
      \<and> snd (purchase_watch ad watch_id purchase token d) = d"
    by (auto simp: purchase_watch_def own split: option.splits)
  then show ?thesis
    by (auto simp: post_purchase_def require_role_def)
qed

theorem purchase_own_watch_rejected_witness:
  "isl (fst (purchase_watch example_adapters 42 example_pix example_store_token example_db))
   \<and> snd (purchase_watch example_adapters 42 example_pix example_store_token example_db) = example_db"
proof -
  have keys: "distinct (map w_id (watches example_db))"
    by (simp add: example_defs)
  have row: "example_watch \<in> set (watches example_db)"
    by (simp add: example_defs)
  have own: "w_current_owner_user_id example_watch = tp_sub example_store_token"
    by (simp add: example_store_token_def example_defs)
  show ?thesis
    using purchase_own_watch_rejected [OF keys row example_values(3) own] by blast
qed

section \<open>Properties of the tokenization handler\<close>

lemma global_name_Evaluator: "global_name ''Evaluator'' = Inl (NameError ''Evaluator'')"
  by (simp add: global_name_def module_names_def)

text \<open>
  C9 (the code breaks it). The tokenization of the tokenized watch 42 by an evaluator does
  not reach the check of line 113: the evaluator lookup of line 108 raises
  \<^verbatim>\<open>NameError\<close>, answered with 500, which is neither \<^verbatim>\<open>InvalidRequest\<close> nor
  \<^verbatim>\<open>ConflictState\<close>. The ledger is unchanged.
\<close>

theorem tokenize_tokenized_watch_raises_name_error:
  "post_tokenize example_adapters 42 example_evaluator_token example_tokenized_db =
     (Inl (NameError ''Evaluator''), example_tokenized_db)
   \<and> \<not> InvalidRequest (NameError ''Evaluator'')
   \<and> \<not> ConflictState (NameError ''Evaluator'')"
  by (simp add: post_tokenize_def require_role_def tokenize_watch_def global_name_Evaluator
      InvalidRequest_def ConflictState_def example_tokenized_db_def example_evaluator_token_def
      example_defs)

text \<open>
  C10. Every call of the tokenization handler on an existing watch raises \<^verbatim>\<open>NameError\<close>
  at the evaluator lookup, since \<^verbatim>\<open>Evaluator\<close> is not a name of the module; no call of the
  handler or of its route changes the ledger, so none sets a status or a token field.
\<close>

theorem tokenize_watch_name_error:
  "((\<exists>w \<in> set (watches d). w_id w = Some watch_id) \<longrightarrow>
      tokenize_watch ad watch_id current_user d = (Inl (NameError ''Evaluator''), d))
   \<and> snd (tokenize_watch ad watch_id current_user d) = d
   \<and> snd (post_tokenize ad watch_id current_user d) = d"
proof -
  have found: "tokenize_watch ad watch_id current_user d = (Inl (NameError ''Evaluator''), d)"
    if "\<exists>w \<in> set (watches d). w_id w = Some watch_id"
  proof -
    from that have "find (\<lambda>w. w_id w = Some watch_id) (watches d) \<noteq> None"
      by (auto simp: find_None_iff)
    then show ?thesis
      by (auto simp: tokenize_watch_def global_name_Evaluator)
  qed
  have same: "snd (tokenize_watch ad watch_id current_user d) = d"
    by (simp add: tokenize_watch_def global_name_Evaluator split: option.splits)
  have "snd (post_tokenize ad watch_id current_user d) = d"
    using same by (simp add: post_tokenize_def require_role_def)
  with found same show ?thesis by blast
qed

theorem tokenize_watch_name_error_witness:
  "tokenize_watch example_adapters 42 example_evaluator_token example_tokenized_db =
     (Inl (NameError ''Evaluator''), example_tokenized_db)"
proof -
  have "\<exists>w \<in> set (watches example_tokenized_db). w_id w = Some 42"
    by (simp add: example_tokenized_db_def example_defs)
  with tokenize_watch_name_error [where d = example_tokenized_db and watch_id = 42
      and ad = example_adapters and current_user = example_evaluator_token]
  show ?thesis by blast
qed

section \<open>The escrow\<close>

lemma distinct_find_key:
  assumes "distinct (map f xs)" and "x \<in> set xs" and "f x = k"
    and "find (\<lambda>y. f y = k) xs = Some y"
  shows "y = x"
  using distinct_find_row [where P = "\<lambda>y. True", OF assms(1,2,3)] assms(4) by simp

lemma release_if_confirmed_id: "es_id (release_if_confirmed (confirm_flag party e)) = es_id e"
  by (simp add: release_if_confirmed_def confirm_flag_def)

lemma release_if_confirmed_both:
  assumes "es_status (release_if_confirmed e) = ''released''" and "es_status e \<noteq> ''released''"
  shows "es_seller_confirmed (release_if_confirmed e) \<and> es_evaluator_confirmed (release_if_confirmed e)"
  using assms by (simp add: release_if_confirmed_def split: if_splits)

lemma confirm_flag_status: "es_status (confirm_flag party e) = es_status e"
  by (simp add: confirm_flag_def)

text \<open>A call either leaves the ledger as it is or rewrites the row of the escrow.\<close>

lemma confirm_delivery_db:
  "snd (confirm_delivery escrow_id current_user d) = d
   \<or> (\<exists>party escrow. find (\<lambda>e. es_id e = Some escrow_id) (escrows d) = Some escrow
        \<and> snd (confirm_delivery escrow_id current_user d) =
            commit [Update_Escrow (release_if_confirmed (confirm_flag party escrow))] d)"
  by (auto simp: confirm_delivery_def escrow_confirm_delivery_def
      split: sum.splits option.splits)

text \<open>
  C5. A call of the confirmation route moves an escrow to released only when, after the
  call, both the seller's and the evaluator's flag are set; an escrow that has only one
  flag set after the call is not released by it. (The escrow contract is modelled from
  the spec.)
\<close>

theorem confirm_delivery_release_needs_both:
  assumes "distinct (map es_id (escrows d))" and "i < length (escrows d)"
  shows "let e = escrows d ! i;
             d' = snd (confirm_delivery escrow_id current_user d);
             e' = escrows d' ! i
         in length (escrows d') = length (escrows d)
          \<and> (es_status e \<noteq> ''released'' \<and> es_status e' = ''released'' \<longrightarrow>
               es_seller_confirmed e' \<and> es_evaluator_confirmed e')
          \<and> (es_status e \<noteq> ''released'' \<and>
               \<not> (es_seller_confirmed e' \<and> es_evaluator_confirmed e') \<longrightarrow>
               es_status e' \<noteq> ''released'')"
proof -
  let ?d' = "snd (confirm_delivery escrow_id current_user d)"
  let ?e = "escrows d ! i"
  let ?e' = "escrows ?d' ! i"
  have len: "length (escrows ?d') = length (escrows d)"
    using confirm_delivery_db [of escrow_id current_user d] by (auto simp: commit_def)
  have both: "es_seller_confirmed ?e' \<and> es_evaluator_confirmed ?e'"
    if open_before: "es_status ?e \<noteq> ''released''" and released: "es_status ?e' = ''released''"
  proof -
    from confirm_delivery_db [of escrow_id current_user d] released open_before
    obtain party escrow where found: "find (\<lambda>e. es_id e = Some escrow_id) (escrows d) = Some escrow"
      and d': "?d' = commit [Update_Escrow (release_if_confirmed (confirm_flag party escrow))] d"
      by auto
    let ?n = "release_if_confirmed (confirm_flag party escrow)"
    have key: "es_id escrow = Some escrow_id"
      using find_SomeD [OF found] by simp
    have rows: "escrows ?d' = map (\<lambda>r. if es_id r = Some escrow_id then ?n else r) (escrows d)"
      unfolding d' by (simp add: commit_def release_if_confirmed_id key)
    have e': "?e' = (if es_id ?e = Some escrow_id then ?n else ?e)"
      unfolding rows using assms(2) by simp
    have hit: "es_id ?e = Some escrow_id"
      using e' released open_before by (auto split: if_splits)
    have "?e \<in> set (escrows d)"
      using assms(2) by simp
    from distinct_find_key [OF assms(1) this hit found] have same: "escrow = ?e" .
    have new: "?e' = ?n"
      using e' hit by simp
    have "es_status (confirm_flag party escrow) \<noteq> ''released''"
      using open_before same by (simp add: confirm_flag_status)
    from release_if_confirmed_both [OF _ this] released new
    show ?thesis by simp
  qed
  from len both show ?thesis
    unfolding Let_def by blast
qed

text \<open>The seller confirms a second time; the evaluator has not: the escrow stays pending.\<close>

theorem confirm_delivery_release_needs_both_witness:
  "es_status (escrows (snd (confirm_delivery 5 example_buyer example_escrow_db)) ! 0) \<noteq> ''released''"
proof -
  have keys: "distinct (map es_id (escrows example_escrow_db))"
    by (simp add: example_escrow_db_def example_escrow_def empty_db_def)
  have len: "0 < length (escrows example_escrow_db)"
    by (simp add: example_escrow_db_def empty_db_def)
  have after: "escrows (snd (confirm_delivery 5 example_buyer example_escrow_db)) ! 0 = example_escrow"
    by (simp add: confirm_delivery_def confirmer_type_def escrow_confirm_delivery_def
        confirm_flag_def release_if_confirmed_def commit_def
        example_escrow_db_def example_escrow_def example_buyer_def empty_db_def)
  have before: "escrows example_escrow_db ! 0 = example_escrow"
    by (simp add: example_escrow_db_def empty_db_def)
  have one: "es_status example_escrow \<noteq> ''released''"
    "\<not> (es_seller_confirmed example_escrow \<and> es_evaluator_confirmed example_escrow)"
    by (simp_all add: example_escrow_def)
  show ?thesis
    using confirm_delivery_release_needs_both [where d = example_escrow_db and i = 0
        and escrow_id = 5 and current_user = example_buyer, OF keys len] one
    by (simp add: Let_def after before)
qed

section \<open>Sold watches and their transfers\<close>

subsection \<open>Keys\<close>




subsection \<open>The invariant under the writes of a table\<close>










subsection \<open>The invariant under the commits of the handlers\<close>







subsection \<open>The invariant under the routes\<close>














subsection \<open>The invariant along a run\<close>








end
